theory Spec2Isabelle
  imports Complex_Main "HOL-Library.Multiset"
begin

section \<open>CeloWallet: the store provider, the wallet breakdown and the asset API\<close>

text \<open>
  A shallow embedding of \<^verbatim>\<open>src/services/Store/StoreProvider.tsx\<close>, of the
  \<^verbatim>\<open>WalletBreakdown\<close> component and of \<^verbatim>\<open>CeloWalletApiService.getAssets\<close>.

  Conventions.
  \<^item> A value that may be \<^verbatim>\<open>undefined\<close> is an \<open>option\<close>; \<open>None\<close> is \<^verbatim>\<open>undefined\<close>.
  \<^item> A promise that settles is a sum: \<open>Inl e\<close> is a rejection with reason \<open>e\<close>,
    \<open>Inr v\<close> a fulfilment with value \<open>v\<close>.
  \<^item> A call of a setter or of a function of another context (\<^verbatim>\<open>AccountContext\<close>,
    \<^verbatim>\<open>SettingsContext\<close>, \<^verbatim>\<open>AddressBookContext\<close>) is an element of a trace, in call order.
  \<^item> \<^verbatim>\<open>BigNumber\<close> values that hold on-chain integers are \<open>int\<close>; JavaScript numbers that
    hold fiat amounts are \<open>real\<close> (exact arithmetic, no NaN).
  \<^item> Records of different interfaces share field names, so fields are written qualified
    (\<open>StoreAsset.uuid\<close>, \<open>IAccount.uuid\<close>) where they would clash.
\<close>

type_synonym TUuid = string
type_synonym TAddress = string
type_synonym NetworkId = string
type_synonym Error = string

subsection \<open>Membership state (StoreProvider.tsx, lines 150-174)\<close>

datatype MembershipState = MEMBER | NOTMEMBER | EXPIRED | ERROR

text \<open>One entry of \<^verbatim>\<open>MembershipStatus.memberships\<close>, as line 225 builds it:
  \<^verbatim>\<open>{ type: MEMBERSHIP_CONTRACTS[contract], expiry: expiries[address][contract] }\<close>.
  The field \<^verbatim>\<open>type\<close> is named \<open>mtype\<close> here.\<close>

record Membership =
  mtype :: "string option"
  expiry :: int

record MembershipStatus =
  address :: TAddress
  memberships :: "Membership list"

text \<open>\<^verbatim>\<open>flatten(Object.values(memberships).map((m) => Object.values(m.memberships).map((e) => e.expiry)))\<close>,
  or \<^verbatim>\<open>[]\<close> when \<^verbatim>\<open>memberships\<close> is undefined.\<close>

definition membershipExpirations :: "MembershipStatus list option \<Rightarrow> int list" where
  "membershipExpirations ms =
     (case ms of
        None \<Rightarrow> []
      | Some l \<Rightarrow> concat (map (\<lambda>m. map expiry (MembershipStatus.memberships m)) l))"

text \<open>\<^verbatim>\<open>Math.round(Date.now() / 1000)\<close>: \<open>now\<close> is \<^verbatim>\<open>Date.now()\<close>, the milliseconds
  since the epoch; \<^verbatim>\<open>Math.round\<close> rounds a half up.\<close>

definition currentTime :: "int \<Rightarrow> int" where
  "currentTime now = (now + 500) div 1000"

definition membershipState :: "int \<Rightarrow> MembershipStatus list option \<Rightarrow> MembershipState" where
  "membershipState now ms =
     (case ms of
        None \<Rightarrow> ERROR
      | Some l \<Rightarrow>
          if length l = 0 then NOTMEMBER
          else if list_ex (\<lambda>expirationTime. expirationTime > currentTime now)
                    (membershipExpirations ms)
          then MEMBER
          else EXPIRED)"

definition isCeloWalletMember :: "int \<Rightarrow> MembershipStatus list option \<Rightarrow> bool" where
  "isCeloWalletMember now ms = (membershipState now ms = MEMBER)"

subsection \<open>The asset API (CeloWalletApi.ts, lines 25-33)\<close>

text \<open>What \<^verbatim>\<open>this.service.get('assets.json')\<close> fulfils with; only \<^verbatim>\<open>data\<close> is read.
  The asset type \<^verbatim>\<open>ExtendedAsset\<close> is a parameter.\<close>

record 'a AxiosResponse =
  data :: "TUuid \<rightharpoonup> 'a"
  status :: nat

text \<open>\<^verbatim>\<open>getAssets\<close> takes the console and the settled request, and gives the console
  and the settled promise it returns. \<^verbatim>\<open>console.debug\<close> appends its arguments.\<close>

definition getAssets ::
  "string list \<Rightarrow> Error + 'a AxiosResponse \<Rightarrow> string list \<times> (Error + (TUuid \<rightharpoonup> 'a))" where
  "getAssets console response =
     (case response of
        Inr r \<Rightarrow> (console, Inr (data r))
      | Inl e \<Rightarrow>
          (console @ [''[CeloWalletApiService]: Fetching assets failed: '', e], Inr Map.empty))"

subsection \<open>Accounts and assets\<close>

text \<open>The members of \<^verbatim>\<open>WalletId\<close> that the source names; every other member is
  \<open>OtherWallet\<close> with its name.\<close>

datatype WalletId = VIEW_ONLY | WEB3 | OtherWallet string

text \<open>\<^verbatim>\<open>StoreAsset\<close>, with the fields the source reads. \<^verbatim>\<open>balance\<close> is a BigNumber of
  base units.\<close>

record StoreAsset =
  uuid :: TUuid
  name :: "string option"
  ticker :: string
  balance :: int
  decimal :: "nat option"

record StoreAccount =
  uuid :: TUuid
  address :: TAddress
  networkId :: NetworkId
  wallet :: WalletId
  label :: string
  assets :: "StoreAsset list"

text \<open>Functions of \<^verbatim>\<open>@utils\<close> and \<^verbatim>\<open>@translations\<close> that the source calls; they are
  defined in other modules and are parameters here.\<close>

record Utils =
  weiToFloat :: "int \<Rightarrow> nat option \<Rightarrow> real"
  convertToFiatFromAsset :: "StoreAsset \<Rightarrow> real option \<Rightarrow> real"
  translateRaw :: "string \<Rightarrow> string"

subsection \<open>Totals (StoreProvider.tsx, lines 338-349)\<close>

text \<open>\<^verbatim>\<open>state.assets\<close>: \<^verbatim>\<open>selectedAccounts.flatMap((account) => account.assets)\<close>, where
  \<^verbatim>\<open>selectedAccounts\<close> defaults to \<^verbatim>\<open>state.accounts\<close>.\<close>

definition assets_of :: "StoreAccount list \<Rightarrow> StoreAccount list option \<Rightarrow> StoreAsset list" where
  "assets_of stateAccounts selectedAccounts =
     concat (map StoreAccount.assets
       (case selectedAccounts of None \<Rightarrow> stateAccounts | Some s \<Rightarrow> s))"

text \<open>Modelled from the spec: \<^verbatim>\<open>getTotalByAsset\<close> of \<^verbatim>\<open>./Asset\<close> is not among the sources.
  The spec says the routine "sums asset balances across accounts": the assets are folded,
  in order, into a dictionary keyed by asset uuid; an asset whose uuid is already a key
  adds its balance to that entry, any other asset becomes a new entry. The dictionary is
  the list of its values in insertion order, which is what \<^verbatim>\<open>Object.values\<close> returns.\<close>

fun addToTotals :: "StoreAsset list \<Rightarrow> StoreAsset \<Rightarrow> StoreAsset list" where
  "addToTotals [] asset = [asset]"
| "addToTotals (prev # dict) asset =
     (if StoreAsset.uuid prev = StoreAsset.uuid asset
      then prev\<lparr>balance := balance prev + balance asset\<rparr> # dict
      else prev # addToTotals dict asset)"

definition getTotalByAsset :: "StoreAsset list \<Rightarrow> StoreAsset list" where
  "getTotalByAsset as = foldl addToTotals [] as"

text \<open>\<^verbatim>\<open>state.totals\<close>: \<^verbatim>\<open>Object.values(getTotalByAsset(state.assets(selectedAccounts)))\<close>.\<close>

definition totals :: "StoreAccount list \<Rightarrow> StoreAccount list option \<Rightarrow> StoreAsset list" where
  "totals stateAccounts selectedAccounts = getTotalByAsset (assets_of stateAccounts selectedAccounts)"

text \<open>\<^verbatim>\<open>state.totalFiat\<close>: the \<^verbatim>\<open>reduce\<close> over the totals, from 0.\<close>

definition totalFiat ::
  "Utils \<Rightarrow> StoreAccount list \<Rightarrow> StoreAccount list option \<Rightarrow>
   (StoreAsset \<Rightarrow> real option) \<Rightarrow> real" where
  "totalFiat utils stateAccounts selectedAccounts getAssetRate =
     foldl (\<lambda>sum asset. sum + convertToFiatFromAsset utils asset (getAssetRate asset)) 0
       (totals stateAccounts selectedAccounts)"

text \<open>The sum of the balances of the assets with uuid \<open>u\<close> in a list of assets: the
  per-asset total in the words of the specification.\<close>

definition totalBalance :: "TUuid \<Rightarrow> StoreAsset list \<Rightarrow> int" where
  "totalBalance u as = sum_list (map balance (filter (\<lambda>a. StoreAsset.uuid a = u) as))"

subsection \<open>The wallet breakdown (WalletBreakdown, lines 180-216)\<close>

record BalanceAccount =
  address :: TAddress
  ticker :: string
  amount :: real
  fiatValue :: real
  label :: string

text \<open>\<^verbatim>\<open>Balance\<close>; its field \<^verbatim>\<open>id\<close> is named \<open>id'\<close>.\<close>

record Balance =
  id' :: string
  name :: string
  ticker :: string
  uuid :: TUuid
  amount :: real
  fiatValue :: real
  exchangeRate :: "real option"
  accounts :: "BalanceAccount list"

text \<open>Modelled from the spec: \<^verbatim>\<open>isExcludedAsset\<close> of \<^verbatim>\<open>@services/Store/helpers\<close> is not
  among the sources. It is the predicate of a \<^verbatim>\<open>filter\<close>, and the spec says that the
  computed balance list excludes the assets excluded per settings: the predicate holds for
  the assets whose uuid is not in the list of excluded uuids.\<close>

definition isExcludedAsset :: "TUuid list \<Rightarrow> StoreAsset \<Rightarrow> bool" where
  "isExcludedAsset excludedAssetUuids asset = (StoreAsset.uuid asset \<notin> set excludedAssetUuids)"

text \<open>\<^verbatim>\<open>Array.prototype.sort\<close> with a comparator: stable, \<open>a\<close> stays before \<open>b\<close> unless
  \<open>cmp a b > 0\<close>. Each element is inserted into the sorted rest of the array.\<close>

fun insertWith :: "('a \<Rightarrow> 'a \<Rightarrow> real) \<Rightarrow> 'a \<Rightarrow> 'a list \<Rightarrow> 'a list" where
  "insertWith cmp x [] = [x]"
| "insertWith cmp x (y # ys) =
     (if cmp x y \<le> 0 then x # y # ys else y # insertWith cmp x ys)"

definition sortWith :: "('a \<Rightarrow> 'a \<Rightarrow> real) \<Rightarrow> 'a list \<Rightarrow> 'a list" where
  "sortWith cmp xs = foldr (insertWith cmp) xs []"

text \<open>The \<^verbatim>\<open>accounts\<close> field of one balance: the \<^verbatim>\<open>reduce\<close> over the current accounts
  (lines 192-209).\<close>

definition balanceAccounts ::
  "Utils \<Rightarrow> real option \<Rightarrow> StoreAccount list \<Rightarrow> StoreAsset \<Rightarrow> BalanceAccount list" where
  "balanceAccounts utils rate currentAccounts asset =
     foldl (\<lambda>acc currAccount.
        let matchingAccAssets =
              filter (\<lambda>accAsset. StoreAsset.uuid accAsset = StoreAsset.uuid asset)
                (StoreAccount.assets currAccount)
        in if length matchingAccAssets \<noteq> 0
           then acc @
             map (\<lambda>accAsset.
                    \<lparr>BalanceAccount.address = StoreAccount.address currAccount,
                     BalanceAccount.ticker = StoreAsset.ticker accAsset,
                     BalanceAccount.amount =
                       weiToFloat utils (balance accAsset) (decimal accAsset),
                     BalanceAccount.fiatValue =
                       convertToFiatFromAsset utils accAsset rate,
                     BalanceAccount.label = StoreAccount.label currAccount\<rparr>)
               matchingAccAssets
           else acc)
       [] currentAccounts"

text \<open>The function mapped over the totals (lines 182-211). In the template string an
  undefined name prints as \<^verbatim>\<open>undefined\<close>; \<^verbatim>\<open>asset.name || ...\<close> takes the translation when
  the name is undefined or empty.\<close>

definition toBalance ::
  "Utils \<Rightarrow> (StoreAsset \<Rightarrow> real option) \<Rightarrow> StoreAccount list \<Rightarrow> StoreAsset \<Rightarrow> Balance" where
  "toBalance utils getAssetRate currentAccounts asset =
     (let rate = getAssetRate asset in
      \<lparr>Balance.id' =
         (case StoreAsset.name asset of None \<Rightarrow> ''undefined'' | Some n \<Rightarrow> n)
           @ ''-'' @ StoreAsset.ticker asset,
       Balance.name =
         (case StoreAsset.name asset of
            None \<Rightarrow> translateRaw utils ''WALLET_BREAKDOWN_UNKNOWN''
          | Some n \<Rightarrow> if n = [] then translateRaw utils ''WALLET_BREAKDOWN_UNKNOWN'' else n),
       Balance.ticker = StoreAsset.ticker asset,
       Balance.uuid = StoreAsset.uuid asset,
       Balance.amount = weiToFloat utils (balance asset) (decimal asset),
       Balance.fiatValue = convertToFiatFromAsset utils asset rate,
       Balance.exchangeRate = rate,
       Balance.accounts = balanceAccounts utils rate currentAccounts asset\<rparr>)"

definition balances ::
  "Utils \<Rightarrow> (StoreAsset \<Rightarrow> real option) \<Rightarrow> TUuid list \<Rightarrow> StoreAccount list \<Rightarrow>
   StoreAccount list \<Rightarrow> Balance list" where
  "balances utils getAssetRate excludedAssets stateAccounts currentAccounts =
     sortWith (\<lambda>a b. Balance.fiatValue b - Balance.fiatValue a)
       (map (toBalance utils getAssetRate currentAccounts)
          (filter (isExcludedAsset excludedAssets) (totals stateAccounts (Some currentAccounts))))"

definition totalFiatValue :: "Balance list \<Rightarrow> real" where
  "totalFiatValue bs = foldl (\<lambda>sum asset. sum + Balance.fiatValue asset) 0 bs"

text \<open>Inputs for the examples: two accounts holding three kinds of asset, a rate of 2
  for \<open>A\<close> and none for the others, and utilities that count base units.\<close>

definition exampleUtils :: Utils where
  "exampleUtils =
     \<lparr>weiToFloat = (\<lambda>b d. real_of_int b),
      convertToFiatFromAsset =
        (\<lambda>a r. real_of_int (balance a) * (case r of None \<Rightarrow> 1 | Some x \<Rightarrow> x)),
      translateRaw = (\<lambda>s. s)\<rparr>"

definition exampleAsset :: "string \<Rightarrow> int \<Rightarrow> StoreAsset" where
  "exampleAsset t b =
     \<lparr>StoreAsset.uuid = t, StoreAsset.name = Some t, StoreAsset.ticker = t,
      balance = b, decimal = Some 18\<rparr>"

definition exampleRate :: "StoreAsset \<Rightarrow> real option" where
  "exampleRate a = (if StoreAsset.uuid a = ''A'' then Some 2 else None)"

definition exampleAccounts :: "StoreAccount list" where
  "exampleAccounts =
     [\<lparr>StoreAccount.uuid = ''u1'', StoreAccount.address = ''0x1'', networkId = ''Celo'',
       wallet = WEB3, StoreAccount.label = ''one'',
       assets = [exampleAsset ''A'' 1, exampleAsset ''B'' 9]\<rparr>,
      \<lparr>StoreAccount.uuid = ''u2'', StoreAccount.address = ''0x2'', networkId = ''Celo'',
       wallet = VIEW_ONLY, StoreAccount.label = ''two'',
       assets = [exampleAsset ''C'' 7, exampleAsset ''A'' 2]\<rparr>]"

subsection \<open>The membership scan (StoreProvider.tsx, lines 200-235)\<close>

text \<open>\<^verbatim>\<open>Network\<close>, with the field the source reads, \<^verbatim>\<open>id\<close>, named \<open>id'\<close>.\<close>

record Network =
  id' :: NetworkId
  chainId :: nat

text \<open>What \<^verbatim>\<open>nestedToBigNumberJS\<close> fulfils with: an object from addresses to objects from
  contracts to expiry timestamps, as the list of its entries in key order.\<close>

type_synonym Expiries = "(TAddress \<times> (string \<times> int) list) list"

text \<open>Constants of \<^verbatim>\<open>@config\<close> and \<^verbatim>\<open>@features/PurchaseMembership/config\<close>, the lookup of
  \<^verbatim>\<open>@mycrypto/unlock-scan\<close> and \<^verbatim>\<open>nestedToBigNumberJS\<close> of \<^verbatim>\<open>./BalanceService\<close>: all are
  defined in other modules and are parameters here. \<open>membershipContracts\<close> is
  \<^verbatim>\<open>Object.values(MEMBERSHIP_CONFIG).map((membership) => membership.contractAddress)\<close>.
  \<open>getUnlockTimestamps\<close> gives the settled promise of the lookup. \<open>nestedToBigNumberJS\<close>
  is applied to what the promise after \<^verbatim>\<open>catch\<close> fulfils with, which is undefined after a
  failed lookup. Its result \<open>Inl\<close> stands for a rejected promise after it: the function
  throws, or returns undefined so that \<^verbatim>\<open>Object.keys(expiries)\<close> throws in the last
  \<^verbatim>\<open>then\<close>; either way the last \<^verbatim>\<open>then\<close> calls nothing.\<close>

record 'raw MembershipEnv =
  DEFAULT_NETWORK :: NetworkId
  MEMBERSHIP_CONTRACTS :: "string \<rightharpoonup> string"
  membershipContracts :: "string list"
  getUnlockTimestamps :: "Network \<Rightarrow> TAddress list \<Rightarrow> string list \<Rightarrow> Error + 'raw"
  nestedToBigNumberJS :: "'raw option \<Rightarrow> Error + Expiries"

text \<open>Lines 202-204.\<close>

definition relevantAccounts ::
  "NetworkId \<Rightarrow> StoreAccount list \<Rightarrow> StoreAccount list option \<Rightarrow> StoreAccount list" where
  "relevantAccounts defaultNetwork currentAccounts accountToScan =
     filter (\<lambda>account. wallet account \<noteq> VIEW_ONLY)
       (filter (\<lambda>account. networkId account = defaultNetwork)
          (case accountToScan of Some a \<Rightarrow> a | None \<Rightarrow> currentAccounts))"

text \<open>lodash's \<^verbatim>\<open>unionBy(xs, ys, iteratee)\<close>: the elements of \<open>xs\<close> then \<open>ys\<close>, keeping
  of the elements with the same value of the iteratee the first one.\<close>

fun uniqBySeen :: "('a \<Rightarrow> 'k) \<Rightarrow> 'k list \<Rightarrow> 'a list \<Rightarrow> 'a list" where
  "uniqBySeen iteratee seen [] = []"
| "uniqBySeen iteratee seen (x # xs) =
     (if iteratee x \<in> set seen then uniqBySeen iteratee seen xs
      else x # uniqBySeen iteratee (iteratee x # seen) xs)"

definition unionBy :: "'a list \<Rightarrow> 'a list \<Rightarrow> ('a \<Rightarrow> 'k) \<Rightarrow> 'a list" where
  "unionBy xs ys iteratee = uniqBySeen iteratee [] (xs @ ys)"

text \<open>Lines 220-230: one status per address, holding the contracts whose expiry is
  positive; statuses without a membership are dropped.\<close>

definition newMemberships :: "(string \<rightharpoonup> string) \<Rightarrow> Expiries \<Rightarrow> MembershipStatus list" where
  "newMemberships contracts expiries =
     filter (\<lambda>m. length (MembershipStatus.memberships m) > 0)
       (map (\<lambda>(a, byContract).
               \<lparr>MembershipStatus.address = a,
                memberships =
                  map (\<lambda>(contract, e). \<lparr>mtype = contracts contract, expiry = e\<rparr>)
                    (filter (\<lambda>(contract, e). e > 0) byContract)\<rparr>)
          expiries)"

text \<open>\<^verbatim>\<open>scanForMemberships\<close> gives the arguments of its calls of \<^verbatim>\<open>setMemberships\<close>, in
  order. \<open>membershipsNow\<close> is the \<^verbatim>\<open>memberships\<close> of the render that made the closure. In
  the promise chain, \<open>caught\<close> is what the \<^verbatim>\<open>catch\<close> handler calls and \<open>settled\<close> what the
  promise after \<^verbatim>\<open>catch\<close> fulfils with; the last \<^verbatim>\<open>then\<close> runs only when
  \<^verbatim>\<open>nestedToBigNumberJS\<close> has not thrown.\<close>

definition scanForMemberships ::
  "'raw MembershipEnv \<Rightarrow> Network list \<Rightarrow> StoreAccount list \<Rightarrow> MembershipStatus list option \<Rightarrow>
   StoreAccount list option \<Rightarrow> MembershipStatus list option list" where
  "scanForMemberships env networks currentAccounts membershipsNow accountToScan =
     (let relevant = relevantAccounts (DEFAULT_NETWORK env) currentAccounts accountToScan in
      case find (\<lambda>n. DEFAULT_NETWORK env = Network.id' n) networks of
        None \<Rightarrow> []
      | Some net \<Rightarrow>
          if length relevant = 0 then []
          else
            (let lookup = getUnlockTimestamps env net (map StoreAccount.address relevant)
                            (membershipContracts env);
                 caught = (case lookup of Inl e \<Rightarrow> [None] | Inr r \<Rightarrow> []);
                 settled = (case lookup of Inl e \<Rightarrow> None | Inr r \<Rightarrow> Some r)
             in caught @
                (case nestedToBigNumberJS env settled of
                   Inl e \<Rightarrow> []
                 | Inr expiries \<Rightarrow>
                     [Some (unionBy (newMemberships (MEMBERSHIP_CONTRACTS env) expiries)
                              (case membershipsNow of Some m \<Rightarrow> m | None \<Rightarrow> [])
                              MembershipStatus.address)])))"

text \<open>The \<^verbatim>\<open>memberships\<close> state after these calls: the last value set.\<close>

definition membershipsAfter ::
  "MembershipStatus list option \<Rightarrow> MembershipStatus list option list \<Rightarrow> MembershipStatus list option" where
  "membershipsAfter membershipsNow sets = (if sets = [] then membershipsNow else last sets)"

subsection \<open>Transactions and their lookups\<close>

text \<open>The members of \<^verbatim>\<open>ITxType\<close> that the source names.\<close>

datatype ITxType = STANDARD | DEFIZAP | PURCHASE_MEMBERSHIP | OtherTxType string

text \<open>\<^verbatim>\<open>ITxReceipt\<close>, with the fields the source reads or writes; \<^verbatim>\<open>from\<close> is named
  \<open>from'\<close>. \<^verbatim>\<open>stage\<close> holds an \<^verbatim>\<open>ITxStatus\<close>, a string.\<close>

record ITxReceipt =
  hash :: string
  from' :: TAddress
  blockNumber :: "nat option"
  network :: "Network option"
  senderAccount :: "StoreAccount option"
  txType :: "ITxType option"
  timestamp :: "int option"
  stage :: "string option"

text \<open>\<^verbatim>\<open>Asset\<close>, with the fields the source reads.\<close>

record Asset =
  uuid :: TUuid
  ticker :: string

text \<open>The lookups of the poller, of \<^verbatim>\<open>@services/EthService\<close>, \<^verbatim>\<open>@utils\<close> and the account
  context: parameters. Each gives the settled promise; \<open>Inr None\<close> is a lookup that
  fulfils with undefined.\<close>

record 'resp RpcEnv =
  getTransactionByHash :: "Network \<Rightarrow> string \<Rightarrow> Error + 'resp option"
  fromTxReceiptObj :: "'resp \<Rightarrow> Asset list \<Rightarrow> Network list \<Rightarrow> ITxReceipt option"
  getTxStatus :: "Network \<Rightarrow> string \<Rightarrow> Error + string option"
  getTimestampFromBlockNum :: "nat option \<Rightarrow> Network \<Rightarrow> Error + int option"
  getAccountByAddressAndNetworkName :: "TAddress \<Rightarrow> NetworkId \<Rightarrow> StoreAccount option"

subsection \<open>Raw accounts, contacts and the calls of other contexts\<close>

record AssetBalanceObject =
  uuid :: TUuid
  balance :: string
  mtime :: int

record IRawAccount =
  address :: TAddress
  networkId :: NetworkId
  wallet :: "WalletId option"
  dPath :: string
  assets :: "AssetBalanceObject list"
  transactions :: "ITxReceipt list"
  favorite :: bool
  mtime :: int

record IAccount = IRawAccount +
  uuid :: TUuid

record AddressBook =
  label :: string
  address :: TAddress
  notes' :: string
  network :: NetworkId

record ExtendedAddressBook = AddressBook +
  uuid :: TUuid

text \<open>Functions of the network, account, asset and address book contexts and of
  \<^verbatim>\<open>@utils\<close> that \<^verbatim>\<open>addAccount\<close> calls: parameters. \<open>web3WalletId\<close> is
  \<^verbatim>\<open>WalletId[getWeb3Config().id]\<close>.\<close>

record AccountEnv =
  getNetworkById :: "NetworkId \<Rightarrow> Network list \<Rightarrow> Network option"
  getAccountByAddressAndNetworkName :: "TAddress \<Rightarrow> NetworkId \<Rightarrow> IAccount option"
  getNewDefaultAssetTemplateByNetwork :: "Asset list \<Rightarrow> Network \<Rightarrow> Asset"
  generateAccountUUID :: "NetworkId \<Rightarrow> TAddress \<Rightarrow> TUuid"
  web3WalletId :: "WalletId option"
  getContactByAddressAndNetworkId :: "TAddress \<Rightarrow> NetworkId \<Rightarrow> ExtendedAddressBook option"
  findNextUnusedDefaultLabel :: "WalletId option \<Rightarrow> ExtendedAddressBook list \<Rightarrow> string"

text \<open>A call of a function of another context, with its arguments.\<close>

datatype Effect =
    UpdateAccountsBalances "StoreAccount option list"
  | AddNewTransactionToAccount "StoreAccount option" ITxReceipt
  | ScanAccountTokens "StoreAccount option"
  | ScanForMemberships "StoreAccount option list"
  | DeleteAccount IAccount
  | UpdateSettingsAccounts "TUuid list"
  | CreateAccountWithID IRawAccount TUuid
  | UpdateContact TUuid ExtendedAddressBook
  | CreateContact AddressBook

subsection \<open>Deleting and restoring an account (StoreProvider.tsx, lines 361-378)\<close>

text \<open>The state of the provider that the two functions set: \<^verbatim>\<open>accountRestore\<close> and
  \<^verbatim>\<open>memberships\<close>. A slot of \<^verbatim>\<open>accountRestore\<close> that holds undefined reads as a missing one.\<close>

record StoreState =
  accountRestore :: "TUuid \<rightharpoonup> IAccount"
  memberships :: "MembershipStatus list option"

text \<open>\<open>dashboardAccounts\<close> is \<^verbatim>\<open>settings.dashboardAccounts\<close>.\<close>

definition deleteAccountFromCache ::
  "TUuid list \<Rightarrow> StoreState \<Rightarrow> IAccount \<Rightarrow> StoreState \<times> Effect list" where
  "deleteAccountFromCache dashboardAccounts st account =
     (st\<lparr>accountRestore := (accountRestore st)(IAccount.uuid account \<mapsto> account),
         StoreState.memberships :=
           map_option
             (filter (\<lambda>s. MembershipStatus.address s \<noteq> IRawAccount.address account))
             (StoreState.memberships st)\<rparr>,
      [DeleteAccount account,
       UpdateSettingsAccounts
         (filter (\<lambda>dashboardUUID. dashboardUUID \<noteq> IAccount.uuid account) dashboardAccounts)])"

text \<open>\<^verbatim>\<open>isEmpty(account)\<close> holds of undefined; it does not hold of an account object,
  which has own enumerable properties. The \<^verbatim>\<open>throw\<close> is \<open>Inl\<close> with the message; it
  comes before any call.\<close>

definition restoreDeletedAccount ::
  "StoreState \<Rightarrow> TUuid \<Rightarrow> Error + StoreState \<times> Effect list" where
  "restoreDeletedAccount st accountId =
     (case accountRestore st accountId of
        None \<Rightarrow> Inl ''Unable to restore account! No account with id specified.''
      | Some account \<Rightarrow>
          (let restAccount = IRawAccount.truncate account;
               u = IAccount.uuid account
           in Inr (st\<lparr>accountRestore := (accountRestore st)(u := None)\<rparr>,
                   [CreateAccountWithID restAccount u])))"

subsection \<open>Adding an account (StoreProvider.tsx, lines 379-421)\<close>

text \<open>\<^verbatim>\<open>addAccount\<close> gives what it returns and the calls it makes. \<open>now\<close> is
  \<^verbatim>\<open>Date.now()\<close>; \<open>contacts\<close> is the address book. \<^verbatim>\<open>!address\<close> holds of the empty string.\<close>

definition addAccount ::
  "AccountEnv \<Rightarrow> Network list \<Rightarrow> Asset list \<Rightarrow> ExtendedAddressBook list \<Rightarrow> int \<Rightarrow>
   NetworkId \<Rightarrow> TAddress \<Rightarrow> WalletId option \<Rightarrow> string \<Rightarrow> IRawAccount option \<times> Effect list" where
  "addAccount env networks ctxAssets contacts now networkId' address' accountType dPath' =
     (case getNetworkById env networkId' networks of
        None \<Rightarrow> (None, [])
      | Some net \<Rightarrow>
          if address' = [] \<or>
             AccountEnv.getAccountByAddressAndNetworkName env address' networkId' \<noteq> None
          then (None, [])
          else
            (let walletType = (if accountType = Some WEB3 then web3WalletId env else accountType);
                 newAsset = getNewDefaultAssetTemplateByNetwork env ctxAssets net;
                 accountUUID = generateAccountUUID env networkId' address';
                 account =
                   \<lparr>IRawAccount.address = address',
                    IRawAccount.networkId = networkId',
                    IRawAccount.wallet = walletType,
                    dPath = dPath',
                    IRawAccount.assets =
                      [\<lparr>AssetBalanceObject.uuid = Asset.uuid newAsset,
                        AssetBalanceObject.balance = ''0'',
                        AssetBalanceObject.mtime = now\<rparr>],
                    transactions = [],
                    favorite = False,
                    IRawAccount.mtime = 0\<rparr>;
                 contactCall =
                   (case getContactByAddressAndNetworkId env (IRawAccount.address account)
                           networkId' of
                      Some existingContact \<Rightarrow>
                        UpdateContact (ExtendedAddressBook.uuid existingContact)
                          (existingContact
                             \<lparr>AddressBook.label :=
                                findNextUnusedDefaultLabel env (IRawAccount.wallet account)
                                  contacts\<rparr>)
                    | None \<Rightarrow>
                        CreateContact
                          \<lparr>AddressBook.label =
                             findNextUnusedDefaultLabel env (IRawAccount.wallet account) contacts,
                           AddressBook.address = IRawAccount.address account,
                           notes' = [],
                           AddressBook.network = IRawAccount.networkId account\<rparr>)
             in (Some account, [contactCall, CreateAccountWithID account accountUUID])))"

subsection \<open>The polls (StoreProvider.tsx, lines 176-198 and 259-311)\<close>

text \<open>The completion of the balance fetch (lines 184-189). \<open>isArrayEqual\<close> of \<^verbatim>\<open>@utils\<close>
  is a parameter; \<^verbatim>\<open>filter(Boolean)\<close> drops the undefined entries. A fetch that rejects
  calls nothing.\<close>

definition balancePollCompletion ::
  "(StoreAccount list \<Rightarrow> StoreAccount list \<Rightarrow> bool) \<Rightarrow> bool \<Rightarrow> StoreAccount list \<Rightarrow>
   Error + StoreAccount option list \<Rightarrow> Effect list" where
  "balancePollCompletion isArrayEqual isMounted currentAccounts fetched =
     (case fetched of
        Inl e \<Rightarrow> []
      | Inr accountsWithBalances \<Rightarrow>
          if isMounted \<and>
             \<not> isArrayEqual currentAccounts (List.map_filter (\<lambda>a. a) accountsWithBalances)
          then [UpdateAccountsBalances accountsWithBalances]
          else [])"

text \<open>\<^verbatim>\<open>!txStatus\<close> and \<^verbatim>\<open>!txTimestamp\<close>: undefined, the empty string and 0 are falsy.\<close>

definition truthyString :: "string option \<Rightarrow> bool" where
  "truthyString s = (case s of None \<Rightarrow> False | Some v \<Rightarrow> v \<noteq> [])"

definition truthyNumber :: "int option \<Rightarrow> bool" where
  "truthyNumber n = (case n of None \<Rightarrow> False | Some v \<Rightarrow> v \<noteq> 0)"

text \<open>Lines 288-290 and 293-297.\<close>

definition senderOf ::
  "'resp RpcEnv \<Rightarrow> ITxReceipt \<Rightarrow> Network \<Rightarrow> ITxReceipt \<Rightarrow> StoreAccount option" where
  "senderOf env pendingTransactionObject pendingNetwork receipt =
     (case senderAccount pendingTransactionObject of
        Some a \<Rightarrow> Some a
      | None \<Rightarrow>
          RpcEnv.getAccountByAddressAndNetworkName env (from' receipt)
            (Network.id' pendingNetwork))"

definition confirmedTx ::
  "ITxReceipt \<Rightarrow> ITxReceipt \<Rightarrow> string option \<Rightarrow> int option \<Rightarrow> ITxReceipt" where
  "confirmedTx pendingTransactionObject receipt txStatus txTimestamp =
     receipt\<lparr>txType :=
               (case txType pendingTransactionObject of
                  Some t \<Rightarrow> Some t
                | None \<Rightarrow> Some STANDARD),
             timestamp := txTimestamp,
             stage := txStatus\<rparr>"

text \<open>The completion of \<^verbatim>\<open>Promise.all\<close> (lines 285-303). \<open>isMounted\<close> is the flag when
  the completion runs.\<close>

definition txStatusCompletion ::
  "'resp RpcEnv \<Rightarrow> bool \<Rightarrow> ITxReceipt \<Rightarrow> Network \<Rightarrow> ITxReceipt \<Rightarrow> string option \<Rightarrow> int option \<Rightarrow>
   Effect list" where
  "txStatusCompletion env isMounted pendingTransactionObject pendingNetwork receipt txStatus txTimestamp =
     (if \<not> isMounted \<or> \<not> truthyString txStatus \<or> \<not> truthyNumber txTimestamp then []
      else
        (let sender = senderOf env pendingTransactionObject pendingNetwork receipt
         in AddNewTransactionToAccount sender
              (confirmedTx pendingTransactionObject receipt txStatus txTimestamp)
            # (if txType pendingTransactionObject = Some DEFIZAP then [ScanAccountTokens sender]
               else if txType pendingTransactionObject = Some PURCHASE_MEMBERSHIP
               then [ScanForMemberships [sender]]
               else [])))"

text \<open>The body of \<^verbatim>\<open>forEach\<close> for one pending transaction (lines 266-304). A lookup
  that rejects ends the chain: no completion runs.\<close>

definition pollPendingTransaction ::
  "'resp RpcEnv \<Rightarrow> Asset list \<Rightarrow> Network list \<Rightarrow> bool \<Rightarrow> ITxReceipt \<Rightarrow> Effect list" where
  "pollPendingTransaction env ctxAssets networks isMounted pendingTransactionObject =
     (case ITxReceipt.network pendingTransactionObject of
        None \<Rightarrow> []
      | Some pendingNetwork \<Rightarrow>
          (case getTransactionByHash env pendingNetwork (hash pendingTransactionObject) of
             Inl e \<Rightarrow> []
           | Inr None \<Rightarrow> []
           | Inr (Some transactionReceipt) \<Rightarrow>
               (case fromTxReceiptObj env transactionReceipt ctxAssets networks of
                  None \<Rightarrow> []
                | Some receipt \<Rightarrow>
                    (case (getTxStatus env pendingNetwork (hash receipt),
                           getTimestampFromBlockNum env (blockNumber receipt) pendingNetwork) of
                       (Inr txStatus, Inr txTimestamp) \<Rightarrow>
                         txStatusCompletion env isMounted pendingTransactionObject pendingNetwork
                           receipt txStatus txTimestamp
                     | _ \<Rightarrow> []))))"

text \<open>One tick of \<^verbatim>\<open>txStatusLookupInterval\<close>: the calls of all pending transactions,
  listed in the order of the transactions.\<close>

definition txStatusLookupTick ::
  "'resp RpcEnv \<Rightarrow> Asset list \<Rightarrow> Network list \<Rightarrow> bool \<Rightarrow> ITxReceipt list \<Rightarrow> Effect list" where
  "txStatusLookupTick env ctxAssets networks isMounted pendingTransactions =
     concat (map (pollPendingTransaction env ctxAssets networks isMounted) pendingTransactions)"

subsection \<open>Timers and the two polls (StoreProvider.tsx, lines 177-198 and 260-311)\<close>

text \<open>The callbacks that the provider hands to a timer: \<open>BalancePoll\<close> is the function of
  lines 178-194, which fetches the balances and whose completion is
  \<open>balancePollCompletion\<close>; \<open>TxStatusPoll\<close> is the function of lines 265-305, one tick of
  the status lookup, \<open>txStatusLookupTick\<close>.\<close>

datatype Poll = BalancePoll | TxStatusPoll

text \<open>The timers of the browser, idealised: the clock counts whole milliseconds, and the
  callback of a timer is called in the millisecond in which the timer is due. \<open>calls\<close>
  lists the callbacks called so far, each with the time of the call.\<close>

record Timer =
  timerId :: nat
  handler :: Poll
  delay :: nat
  due :: nat

record EventLoop =
  clock :: nat
  timers :: "Timer list"
  nextTimerId :: nat
  calls :: "(nat \<times> Poll) list"

text \<open>\<^verbatim>\<open>setInterval(handler, delay)\<close> arms a timer that is due after the delay, and gives
  its id; a delay of 0 counts as 1. \<^verbatim>\<open>clearInterval(id)\<close> disarms it.\<close>

definition setInterval :: "Poll \<Rightarrow> nat \<Rightarrow> EventLoop \<Rightarrow> nat \<times> EventLoop" where
  "setInterval h d L =
     (nextTimerId L,
      L\<lparr>timers := timers L @
            [\<lparr>timerId = nextTimerId L, handler = h, delay = max 1 d, due = clock L + max 1 d\<rparr>],
        nextTimerId := nextTimerId L + 1\<rparr>)"

definition clearInterval :: "nat \<Rightarrow> EventLoop \<Rightarrow> EventLoop" where
  "clearInterval i L = L\<lparr>timers := filter (\<lambda>t. timerId t \<noteq> i) (timers L)\<rparr>"

text \<open>One millisecond passes: the callbacks of the timers now due are called, in the
  order in which the timers were armed, and each of these timers is due again after its
  delay. \<open>run n\<close> lets \<open>n\<close> milliseconds pass.\<close>

definition tick :: "EventLoop \<Rightarrow> EventLoop" where
  "tick L =
     (let c = clock L + 1 in
      L\<lparr>clock := c,
        calls := calls L @ map (\<lambda>t. (c, handler t)) (filter (\<lambda>t. due t = c) (timers L)),
        timers := map (\<lambda>t. if due t = c then t\<lparr>due := c + delay t\<rparr> else t) (timers L)\<rparr>)"

fun run :: "nat \<Rightarrow> EventLoop \<Rightarrow> EventLoop" where
  "run 0 L = L"
| "run (Suc n) L = run n (tick L)"

text \<open>Modelled from the spec: \<^verbatim>\<open>useInterval\<close> of \<^verbatim>\<open>@utils\<close> is not among the sources. The
  source calls it with the callback, the delay \<^verbatim>\<open>60000\<close>, \<^verbatim>\<open>true\<close> and the dependencies
  \<^verbatim>\<open>[currentAccounts]\<close> (lines 177-198), and the spec says "balance refresh every 60s":
  the hook arms an interval for the callback with the given delay. Its third argument is
  taken to ask for one call of the callback when the hook mounts.\<close>

definition useInterval :: "Poll \<Rightarrow> nat \<Rightarrow> bool \<Rightarrow> EventLoop \<Rightarrow> nat \<times> EventLoop" where
  "useInterval cb d immediate L =
     setInterval cb d (if immediate then L\<lparr>calls := calls L @ [(clock L, cb)]\<rparr> else L)"

text \<open>The effect of lines 260-311: with no pending transaction it arms nothing and has
  no cleanup; otherwise it arms \<^verbatim>\<open>txStatusLookupInterval\<close> with \<^verbatim>\<open>5 * 1000\<close>, and its
  cleanup clears that interval. The result holds the id that the cleanup needs. The
  cleanup's \<^verbatim>\<open>isMounted = false\<close> is the flag of \<open>txStatusCompletion\<close>.\<close>

definition txStatusEffect :: "ITxReceipt list \<Rightarrow> EventLoop \<Rightarrow> nat option \<times> EventLoop" where
  "txStatusEffect pendingTransactions L =
     (if length pendingTransactions = 0 then (None, L)
      else (let (txStatusLookupInterval, L') = setInterval TxStatusPoll (5 * 1000) L
            in (Some txStatusLookupInterval, L')))"

definition txStatusCleanup :: "nat option \<Rightarrow> EventLoop \<Rightarrow> EventLoop" where
  "txStatusCleanup armed L = (case armed of None \<Rightarrow> L | Some i \<Rightarrow> clearInterval i L)"

text \<open>React runs an effect again when one of its dependencies has changed, here
  \<^verbatim>\<open>[pendingTransactions]\<close> (line 311): first the cleanup of the last run, then the
  effect.\<close>

definition txStatusRerender ::
  "nat option \<Rightarrow> ITxReceipt list \<Rightarrow> EventLoop \<Rightarrow> nat option \<times> EventLoop" where
  "txStatusRerender armed pendingTransactions L =
     txStatusEffect pendingTransactions (txStatusCleanup armed L)"

text \<open>The provider mounts: the hook of line 177, then the effect of line 260.\<close>

definition mountStoreProvider :: "ITxReceipt list \<Rightarrow> EventLoop \<Rightarrow> nat option \<times> EventLoop" where
  "mountStoreProvider pendingTransactions L =
     txStatusEffect pendingTransactions (snd (useInterval BalancePoll 60000 True L))"

definition freshLoop :: EventLoop where
  "freshLoop = \<lparr>clock = 0, timers = [], nextTimerId = 0, calls = []\<rparr>"

subsection \<open>Inputs for the examples\<close>

definition exampleNetwork :: Network where
  "exampleNetwork = \<lparr>Network.id' = ''Celo'', chainId = 42220\<rparr>"

text \<open>A lookup that always fails and a conversion that throws on undefined.\<close>

definition exampleMembershipEnv :: "Expiries MembershipEnv" where
  "exampleMembershipEnv =
     \<lparr>DEFAULT_NETWORK = ''Celo'',
      MEMBERSHIP_CONTRACTS = Map.empty,
      membershipContracts = [''0xc1''],
      getUnlockTimestamps = (\<lambda>n as cs. Inl ''timeout''),
      nestedToBigNumberJS =
        (\<lambda>r. case r of None \<Rightarrow> Inl ''TypeError'' | Some x \<Rightarrow> Inr x)\<rparr>"

definition exampleReceipt :: ITxReceipt where
  "exampleReceipt =
     \<lparr>hash = ''0xabc'', from' = ''0x1'', blockNumber = Some 7,
      ITxReceipt.network = Some exampleNetwork, senderAccount = None, txType = None,
      timestamp = None, stage = None\<rparr>"

definition examplePending :: ITxReceipt where
  "examplePending =
     \<lparr>hash = ''0xabc'', from' = ''0x1'', blockNumber = None,
      ITxReceipt.network = Some exampleNetwork, senderAccount = None,
      txType = Some PURCHASE_MEMBERSHIP, timestamp = None, stage = None\<rparr>"

text \<open>Lookups that know one transaction, \<open>0xabc\<close>, mined at time 1600000000.\<close>

definition exampleRpcEnv :: "string RpcEnv" where
  "exampleRpcEnv =
     \<lparr>getTransactionByHash = (\<lambda>n h. if h = ''0xabc'' then Inr (Some ''raw'') else Inr None),
      fromTxReceiptObj = (\<lambda>resp as ns. Some exampleReceipt),
      getTxStatus = (\<lambda>n h. Inr (Some ''SUCCESS'')),
      getTimestampFromBlockNum = (\<lambda>b n. Inr (Some 1600000000)),
      RpcEnv.getAccountByAddressAndNetworkName = (\<lambda>a n. None)\<rparr>"

definition exampleIAccount :: IAccount where
  "exampleIAccount =
     \<lparr>IRawAccount.address = ''0x1'', IRawAccount.networkId = ''Celo'',
      IRawAccount.wallet = Some WEB3, dPath = ''m/44'', IRawAccount.assets = [],
      transactions = [], favorite = True, IRawAccount.mtime = 3, IAccount.uuid = ''u1''\<rparr>"

definition exampleStoreState :: StoreState where
  "exampleStoreState =
     \<lparr>accountRestore = Map.empty,
      StoreState.memberships =
        Some [\<lparr>MembershipStatus.address = ''0x1'', MembershipStatus.memberships = []\<rparr>]\<rparr>"

text \<open>An account context that knows the account \<open>0x1\<close> on \<open>Celo\<close>.\<close>

definition exampleAccountEnv :: AccountEnv where
  "exampleAccountEnv =
     \<lparr>getNetworkById = (\<lambda>i ns. find (\<lambda>n. Network.id' n = i) ns),
      AccountEnv.getAccountByAddressAndNetworkName =
        (\<lambda>a n. if a = ''0x1'' \<and> n = ''Celo'' then Some exampleIAccount else None),
      getNewDefaultAssetTemplateByNetwork =
        (\<lambda>as n. \<lparr>Asset.uuid = ''asset-'' @ Network.id' n, Asset.ticker = ''CELO''\<rparr>),
      generateAccountUUID = (\<lambda>n a. n @ ''-'' @ a),
      web3WalletId = Some (OtherWallet ''METAMASK''),
      getContactByAddressAndNetworkId = (\<lambda>a n. None),
      findNextUnusedDefaultLabel = (\<lambda>w cs. ''Account 1'')\<rparr>"

section \<open>Properties\<close>

subsection \<open>Membership state\<close>

text \<open>
  C1. For every value of the memberships list the computed state is one of ERROR,
  NOTMEMBER, MEMBER, EXPIRED: ERROR exactly when memberships is undefined, NOTMEMBER
  exactly when it is defined and empty, otherwise MEMBER exactly when some membership
  expiry is strictly greater than the current time in seconds and EXPIRED when none is;
  and isCeloWalletMember holds exactly when the state is MEMBER.
\<close>

theorem membershipState_classification:
  "membershipState now ms \<in> {ERROR, NOTMEMBER, MEMBER, EXPIRED}
   \<and> (membershipState now ms = ERROR) = (ms = None)
   \<and> (membershipState now ms = NOTMEMBER) = (ms = Some [])
   \<and> (membershipState now ms = MEMBER) =
       (\<exists>l. ms = Some l \<and> l \<noteq> [] \<and>
            (\<exists>m \<in> set l. \<exists>e \<in> set (MembershipStatus.memberships m).
               currentTime now < expiry e))
   \<and> (membershipState now ms = EXPIRED) =
       (\<exists>l. ms = Some l \<and> l \<noteq> [] \<and>
            \<not> (\<exists>m \<in> set l. \<exists>e \<in> set (MembershipStatus.memberships m).
               currentTime now < expiry e))
   \<and> isCeloWalletMember now ms = (membershipState now ms = MEMBER)"
proof (cases ms)
  case None
  then show ?thesis
    by (simp add: membershipState_def isCeloWalletMember_def)
next
  case (Some l)
  have ex: "list_ex (\<lambda>t. t > currentTime now) (membershipExpirations (Some l)) =
            (\<exists>m \<in> set l. \<exists>e \<in> set (MembershipStatus.memberships m). currentTime now < expiry e)"
    by (auto simp: membershipExpirations_def list_ex_iff)
  show ?thesis
  proof (cases "l = []")
    case True
    with Some show ?thesis
      by (simp add: membershipState_def isCeloWalletMember_def)
  next
    case False
    with Some ex show ?thesis
      by (simp add: membershipState_def isCeloWalletMember_def)
  qed
qed

theorem membershipState_classification_witness:
  "membershipState 1600000000499
     (Some [\<lparr>MembershipStatus.address = ''0xa'', MembershipStatus.memberships =
              [\<lparr>mtype = None, expiry = 1600000000\<rparr>, \<lparr>mtype = None, expiry = 1600000001\<rparr>]\<rparr>])
     = MEMBER
   \<and> membershipState 1600000000500
     (Some [\<lparr>MembershipStatus.address = ''0xa'', MembershipStatus.memberships =
              [\<lparr>mtype = None, expiry = 1600000000\<rparr>, \<lparr>mtype = None, expiry = 1600000001\<rparr>]\<rparr>])
     = EXPIRED"
  using membershipState_classification [of 1600000000499
      "Some [\<lparr>MembershipStatus.address = ''0xa'', MembershipStatus.memberships =
              [\<lparr>mtype = None, expiry = 1600000000\<rparr>, \<lparr>mtype = None, expiry = 1600000001\<rparr>]\<rparr>]"]
    membershipState_classification [of 1600000000500
      "Some [\<lparr>MembershipStatus.address = ''0xa'', MembershipStatus.memberships =
              [\<lparr>mtype = None, expiry = 1600000000\<rparr>, \<lparr>mtype = None, expiry = 1600000001\<rparr>]\<rparr>]"]
  by (simp add: currentTime_def)

subsection \<open>The asset API\<close>

text \<open>
  C4. When the underlying HTTP request rejects, getAssets fulfils with the empty mapping
  and does not propagate the rejection; when the request succeeds it fulfils with the
  response data unchanged.
\<close>

theorem getAssets_swallows_failure:
  "snd (getAssets console (Inl e)) = Inr Map.empty
   \<and> snd (getAssets console (Inr r)) = Inr (data r)
   \<and> (\<forall>response. \<exists>m. snd (getAssets console response) = Inr m)"
  by (auto simp: getAssets_def split: sum.splits)


subsection \<open>Totals\<close>

lemma uuids_addToTotals:
  "map StoreAsset.uuid (addToTotals dict a) =
     (if StoreAsset.uuid a \<in> set (map StoreAsset.uuid dict) then map StoreAsset.uuid dict
      else map StoreAsset.uuid dict @ [StoreAsset.uuid a])"
  by (induction dict) auto

lemma distinct_addToTotals:
  "distinct (map StoreAsset.uuid dict) \<Longrightarrow> distinct (map StoreAsset.uuid (addToTotals dict a))"
  by (simp add: uuids_addToTotals)

lemma totalBalance_addToTotals:
  "totalBalance u (addToTotals dict a) = totalBalance u (dict @ [a])"
  by (induction dict) (auto simp: totalBalance_def)

lemma totalBalance_append: "totalBalance u (xs @ ys) = totalBalance u xs + totalBalance u ys"
  by (simp add: totalBalance_def)

text \<open>The dictionary's invariant along the fold: its keys stay distinct, they are the
  uuids seen so far, and the balances under a key add up to those of the assets seen.\<close>

lemma foldl_addToTotals:
  "distinct (map StoreAsset.uuid dict) \<Longrightarrow>
   distinct (map StoreAsset.uuid (foldl addToTotals dict as))
   \<and> set (map StoreAsset.uuid (foldl addToTotals dict as)) = StoreAsset.uuid ` (set dict \<union> set as)
   \<and> totalBalance u (foldl addToTotals dict as) = totalBalance u (dict @ as)"
proof (induction as arbitrary: dict)
  case Nil
  then show ?case by simp
next
  case (Cons a as)
  from Cons.prems have d: "distinct (map StoreAsset.uuid (addToTotals dict a))"
    by (rule distinct_addToTotals)
  have s: "set (map StoreAsset.uuid (addToTotals dict a)) = StoreAsset.uuid ` (set dict \<union> {a})"
    by (auto simp: uuids_addToTotals)
  have "totalBalance u (foldl addToTotals (addToTotals dict a) as) =
        totalBalance u (addToTotals dict a) + totalBalance u as"
    using Cons.IH [OF d] by (simp only: totalBalance_append)
  also have "\<dots> = totalBalance u (dict @ [a]) + totalBalance u as"
    by (simp only: totalBalance_addToTotals)
  also have "\<dots> = totalBalance u (dict @ a # as)"
    by (simp add: totalBalance_def)
  finally have b: "totalBalance u (foldl addToTotals (addToTotals dict a) as) =
        totalBalance u (dict @ a # as)" .
  from Cons.IH [OF d] s b show ?case
    by auto
qed

lemma totalBalance_distinct:
  "distinct (map StoreAsset.uuid dict) \<Longrightarrow> t \<in> set dict \<Longrightarrow>
   totalBalance (StoreAsset.uuid t) dict = StoreAsset.balance t"
proof (induction dict)
  case Nil
  then show ?case by simp
next
  case (Cons d dict)
  show ?case
  proof (cases "t = d")
    case True
    have "StoreAsset.uuid d \<notin> StoreAsset.uuid ` set dict"
      using Cons.prems(1) by simp
    then have "\<forall>x \<in> set dict. StoreAsset.uuid x \<noteq> StoreAsset.uuid d"
      by (metis image_eqI)
    then have "filter (\<lambda>a. StoreAsset.uuid a = StoreAsset.uuid d) dict = []"
      by (simp add: filter_empty_conv)
    with True show ?thesis by (simp add: totalBalance_def)
  next
    case False
    with Cons.prems have "t \<in> set dict" "StoreAsset.uuid d \<noteq> StoreAsset.uuid t" by auto
    with Cons show ?thesis by (simp add: totalBalance_def)
  qed
qed

lemma foldl_plus_sum_list:
  "foldl (\<lambda>sum x. sum + f x) (s::real) xs = s + sum_list (map f xs)"
  by (induction xs arbitrary: s) simp_all

text \<open>
  C3. For every list of selected accounts and every rate function, totalFiat is the sum,
  over the per-asset totals, of each total converted to fiat with the rate of that asset;
  and the per-asset totals are obtained by summing asset balances across the selected
  accounts: there is one total per asset uuid held by a selected account, and its balance
  is the sum of the balances of the assets with that uuid in the selected accounts.
\<close>

theorem totalFiat_sum:
  "totalFiat utils accs (Some sel) rate =
     (\<Sum>t \<leftarrow> totals accs (Some sel). convertToFiatFromAsset utils t (rate t))
   \<and> distinct (map StoreAsset.uuid (totals accs (Some sel)))
   \<and> set (map StoreAsset.uuid (totals accs (Some sel))) =
       StoreAsset.uuid ` set (concat (map StoreAccount.assets sel))
   \<and> (\<forall>t \<in> set (totals accs (Some sel)).
         StoreAsset.balance t = totalBalance (StoreAsset.uuid t) (concat (map StoreAccount.assets sel)))"
proof -
  let ?as = "concat (map StoreAccount.assets sel)"
  have inv: "distinct (map StoreAsset.uuid (foldl addToTotals [] ?as))
   \<and> set (map StoreAsset.uuid (foldl addToTotals [] ?as)) = StoreAsset.uuid ` (set [] \<union> set ?as)
   \<and> totalBalance u (foldl addToTotals [] ?as) = totalBalance u ([] @ ?as)" for u
    by (rule foldl_addToTotals) simp
  have t: "totals accs (Some sel) = foldl addToTotals [] ?as"
    by (simp add: totals_def getTotalByAsset_def assets_of_def)
  have b: "StoreAsset.balance x = totalBalance (StoreAsset.uuid x) ?as"
    if "x \<in> set (totals accs (Some sel))" for x
    using totalBalance_distinct [of "totals accs (Some sel)" x] that inv [of "StoreAsset.uuid x"] t
    by simp
  show ?thesis
    using inv b by (simp add: totalFiat_def foldl_plus_sum_list t)
qed

subsection \<open>The wallet breakdown\<close>

lemma mset_insertWith: "mset (insertWith cmp x xs) = add_mset x (mset xs)"
  by (induction xs) simp_all

lemma mset_sortWith: "mset (sortWith cmp xs) = mset xs"
  unfolding sortWith_def by (induction xs) (simp_all add: mset_insertWith)

lemma set_sortWith: "set (sortWith cmp xs) = set xs"
  by (metis mset_sortWith set_mset_mset)

lemma descending_insertWith:
  assumes "sorted_wrt (\<lambda>a b. key b \<le> (key a :: real)) xs"
  shows "sorted_wrt (\<lambda>a b. key b \<le> key a) (insertWith (\<lambda>a b. key b - key a) x xs)"
  using assms
proof (induction xs)
  case Nil
  then show ?case by simp
next
  case (Cons y ys)
  have s: "set (insertWith (\<lambda>a b. key b - key a) x ys) = insert x (set ys)"
    by (metis mset_insertWith set_mset_add_mset_insert set_mset_mset)
  show ?case
  proof (cases "key y - key x \<le> 0")
    case True
    with Cons.prems show ?thesis by (auto intro: order_trans)
  next
    case False
    with Cons s show ?thesis by auto
  qed
qed

lemma descending_sortWith:
  "sorted_wrt (\<lambda>a b. key b \<le> (key a :: real)) (sortWith (\<lambda>a b. key b - key a) xs)"
  unfolding sortWith_def by (induction xs) (simp_all add: descending_insertWith)

lemma uuid_toBalance: "Balance.uuid (toBalance utils rate cur a) = StoreAsset.uuid a"
  by (simp add: toBalance_def Let_def)

text \<open>
  C2. For every set of current accounts and every list of excluded assets, the computed
  balance list has no entry for an excluded asset, and its entries are in descending
  order of fiatValue. The entries are those of the totals of the current accounts that
  are not excluded, one each.
\<close>

theorem balances_excluded_sorted:
  "(\<forall>b \<in> set (balances utils rate excluded accs cur). Balance.uuid b \<notin> set excluded)
   \<and> sorted_wrt (\<lambda>a b. Balance.fiatValue b \<le> Balance.fiatValue a)
       (balances utils rate excluded accs cur)
   \<and> mset (map Balance.uuid (balances utils rate excluded accs cur)) =
       mset (filter (\<lambda>u. u \<notin> set excluded)
               (map StoreAsset.uuid (totals accs (Some cur))))"
proof -
  have m: "map Balance.uuid (map (toBalance utils rate cur) xs) = map StoreAsset.uuid xs" for xs
    by (simp add: uuid_toBalance)
  have e: "Balance.uuid b \<notin> set excluded"
    if "b \<in> set (balances utils rate excluded accs cur)" for b
    using that by (auto simp: balances_def set_sortWith uuid_toBalance isExcludedAsset_def)
  have "mset (map Balance.uuid (balances utils rate excluded accs cur)) =
        mset (map StoreAsset.uuid (filter (isExcludedAsset excluded) (totals accs (Some cur))))"
    unfolding balances_def by (simp only: mset_map mset_sortWith flip: m)
  also have "\<dots> = mset (filter (\<lambda>u. u \<notin> set excluded)
               (map StoreAsset.uuid (totals accs (Some cur))))"
    by (simp add: filter_map comp_def isExcludedAsset_def)
  finally show ?thesis
    using e by (simp add: balances_def descending_sortWith)
qed


text \<open>The total of the balance list is the sum of its fiat values; when no asset is
  excluded it is totalFiat of the current accounts.\<close>

lemma totalFiatValue_sum: "totalFiatValue bs = (\<Sum>b \<leftarrow> bs. Balance.fiatValue b)"
  by (simp add: totalFiatValue_def foldl_plus_sum_list)

lemma fiatValue_toBalance:
  "Balance.fiatValue (toBalance utils rate cur a) = convertToFiatFromAsset utils a (rate a)"
  by (simp add: toBalance_def Let_def)

lemma totalFiatValue_no_exclusion:
  "totalFiatValue (balances utils rate [] accs cur) = totalFiat utils accs (Some cur) rate"
proof -
  let ?bs = "map (toBalance utils rate cur) (totals accs (Some cur))"
  have "sum_list (map Balance.fiatValue (sortWith cmp ?bs)) = sum_list (map Balance.fiatValue ?bs)"
    for cmp
    by (metis mset_map mset_sortWith sum_mset_sum_list)
  then show ?thesis
    by (simp add: totalFiatValue_sum balances_def isExcludedAsset_def totalFiat_def
        foldl_plus_sum_list comp_def fiatValue_toBalance)
qed

lemmas example_defs = exampleAccounts_def exampleAsset_def exampleRate_def exampleUtils_def
  balances_def totals_def getTotalByAsset_def assets_of_def sortWith_def toBalance_def
  isExcludedAsset_def balanceAccounts_def totalFiat_def totalBalance_def

theorem balances_excluded_sorted_witness:
  "map (\<lambda>b. (Balance.uuid b, Balance.fiatValue b))
     (balances exampleUtils exampleRate [''B''] [] exampleAccounts) = [(''C'', 7), (''A'', 6)]
   \<and> sorted_wrt (\<lambda>a b. Balance.fiatValue b \<le> Balance.fiatValue a)
       (balances exampleUtils exampleRate [''B''] [] exampleAccounts)"
  using balances_excluded_sorted [of exampleUtils exampleRate "[''B'']" "[]" exampleAccounts]
  by (simp add: example_defs)

theorem totalFiat_sum_witness:
  "totalFiat exampleUtils [] (Some exampleAccounts) exampleRate = 22
   \<and> map (\<lambda>t. (StoreAsset.uuid t, StoreAsset.balance t)) (totals [] (Some exampleAccounts)) =
       [(''A'', 3), (''B'', 9), (''C'', 7)]
   \<and> totalBalance ''A'' (concat (map StoreAccount.assets exampleAccounts)) = 3"
  using totalFiat_sum [of exampleUtils "[]" exampleAccounts exampleRate]
  by (simp add: example_defs)


subsection \<open>The membership scan\<close>

text \<open>After a failed lookup the first call sets \<^verbatim>\<open>memberships\<close> to undefined. Whether a
  second call follows is decided by \<^verbatim>\<open>nestedToBigNumberJS\<close> on undefined.\<close>

lemma scanForMemberships_failed_lookup:
  assumes "find (\<lambda>n. DEFAULT_NETWORK env = Network.id' n) nets = Some net"
    and "relevantAccounts (DEFAULT_NETWORK env) cur scan \<noteq> []"
    and "getUnlockTimestamps env net
           (map StoreAccount.address (relevantAccounts (DEFAULT_NETWORK env) cur scan))
           (membershipContracts env) = Inl e"
  shows "scanForMemberships env nets cur old scan =
           None # (case nestedToBigNumberJS env None of
                     Inl e' \<Rightarrow> []
                   | Inr expiries \<Rightarrow>
                       [Some (unionBy (newMemberships (MEMBERSHIP_CONTRACTS env) expiries)
                                (case old of Some m \<Rightarrow> m | None \<Rightarrow> [])
                                MembershipStatus.address)])"
  using assms by (simp add: scanForMemberships_def Let_def)

text \<open>
  C5. In every membership scan in which the timestamp lookup fails, memberships is set
  to undefined, and an undefined memberships maps to the ERROR membership state. The scan
  sets undefined first; when \<^verbatim>\<open>nestedToBigNumberJS\<close> throws on undefined this is its only
  call, so that the state stays undefined.
\<close>

theorem scanForMemberships_failure_sets_undefined:
  assumes "find (\<lambda>n. DEFAULT_NETWORK env = Network.id' n) nets = Some net"
    and "relevantAccounts (DEFAULT_NETWORK env) cur scan \<noteq> []"
    and "getUnlockTimestamps env net
           (map StoreAccount.address (relevantAccounts (DEFAULT_NETWORK env) cur scan))
           (membershipContracts env) = Inl e"
  shows "(\<exists>later. scanForMemberships env nets cur old scan = None # later)
       \<and> ((\<exists>e'. nestedToBigNumberJS env None = Inl e') \<longrightarrow>
            scanForMemberships env nets cur old scan = [None]
            \<and> membershipsAfter old (scanForMemberships env nets cur old scan) = None)
       \<and> membershipState now None = ERROR
       \<and> \<not> isCeloWalletMember now None"
  using scanForMemberships_failed_lookup [OF assms, of old]
  by (auto simp: membershipsAfter_def membershipState_def isCeloWalletMember_def)

theorem scanForMemberships_failure_sets_undefined_witness:
  "relevantAccounts ''Celo'' exampleAccounts None \<noteq> []
   \<and> scanForMemberships exampleMembershipEnv [exampleNetwork] exampleAccounts (Some []) None
       = [None]
   \<and> membershipsAfter (Some [])
        (scanForMemberships exampleMembershipEnv [exampleNetwork] exampleAccounts (Some []) None)
       = None
   \<and> membershipState 0 None = ERROR"
  using scanForMemberships_failure_sets_undefined
    [of exampleMembershipEnv "[exampleNetwork]" exampleNetwork exampleAccounts None
      "''timeout''" "Some []" 0]
  by (simp add: exampleMembershipEnv_def exampleNetwork_def exampleAccounts_def
      relevantAccounts_def membershipsAfter_def)

subsection \<open>The pending-transaction poller\<close>

lemma pollPendingTransaction_cases:
  "pollPendingTransaction env as nets m p \<noteq> [] \<Longrightarrow>
   \<exists>net resp receipt st ts.
      ITxReceipt.network p = Some net
      \<and> getTransactionByHash env net (hash p) = Inr (Some resp)
      \<and> fromTxReceiptObj env resp as nets = Some receipt
      \<and> getTxStatus env net (hash receipt) = Inr st
      \<and> getTimestampFromBlockNum env (blockNumber receipt) net = Inr ts
      \<and> pollPendingTransaction env as nets m p = txStatusCompletion env m p net receipt st ts"
  by (auto simp: pollPendingTransaction_def split: option.splits sum.splits)

lemma txStatusCompletion_cases:
  "txStatusCompletion env m p net receipt st ts \<noteq> [] \<Longrightarrow>
   m \<and> (\<exists>s t. st = Some s \<and> s \<noteq> [] \<and> ts = Some t \<and> t \<noteq> 0)
   \<and> (\<exists>later. txStatusCompletion env m p net receipt st ts =
         AddNewTransactionToAccount (senderOf env p net receipt) (confirmedTx p receipt st ts)
           # later)"
  by (auto simp: txStatusCompletion_def truthyString_def truthyNumber_def Let_def
      split: option.splits if_splits)

text \<open>
  C6. For every pending transaction that the status poller processes, account state is
  updated only when the receipt lookup, the status lookup and the block-timestamp lookup
  all succeed, and then the transaction is added to the sender account with its timestamp
  and stage; if the receipt lookup, the receipt conversion, the status lookup or the
  timestamp lookup gives undefined, nothing is called for that transaction in that round.
\<close>

theorem pollPendingTransaction_updates_only_on_success:
  "(pollPendingTransaction env as nets m p \<noteq> [] \<longrightarrow>
      (\<exists>net resp receipt st ts later.
          ITxReceipt.network p = Some net
          \<and> getTransactionByHash env net (hash p) = Inr (Some resp)
          \<and> fromTxReceiptObj env resp as nets = Some receipt
          \<and> getTxStatus env net (hash receipt) = Inr (Some st)
          \<and> getTimestampFromBlockNum env (blockNumber receipt) net = Inr (Some ts)
          \<and> pollPendingTransaction env as nets m p =
              AddNewTransactionToAccount (senderOf env p net receipt)
                (confirmedTx p receipt (Some st) (Some ts)) # later
          \<and> timestamp (confirmedTx p receipt (Some st) (Some ts)) = Some ts
          \<and> stage (confirmedTx p receipt (Some st) (Some ts)) = Some st))
   \<and> (\<forall>net. ITxReceipt.network p = Some net
          \<and> getTransactionByHash env net (hash p) = Inr None
        \<longrightarrow> pollPendingTransaction env as nets m p = [])
   \<and> (\<forall>net resp.
          ITxReceipt.network p = Some net
          \<and> getTransactionByHash env net (hash p) = Inr (Some resp)
          \<and> fromTxReceiptObj env resp as nets = None
        \<longrightarrow> pollPendingTransaction env as nets m p = [])
   \<and> (\<forall>net resp receipt.
          ITxReceipt.network p = Some net
          \<and> getTransactionByHash env net (hash p) = Inr (Some resp)
          \<and> fromTxReceiptObj env resp as nets = Some receipt
          \<and> (getTxStatus env net (hash receipt) = Inr None
               \<or> getTimestampFromBlockNum env (blockNumber receipt) net = Inr None)
        \<longrightarrow> pollPendingTransaction env as nets m p = [])"
proof (intro conjI impI allI)
  assume ne: "pollPendingTransaction env as nets m p \<noteq> []"
  from pollPendingTransaction_cases [OF ne] obtain net resp receipt st ts where
    a: "ITxReceipt.network p = Some net"
       "getTransactionByHash env net (hash p) = Inr (Some resp)"
       "fromTxReceiptObj env resp as nets = Some receipt"
       "getTxStatus env net (hash receipt) = Inr st"
       "getTimestampFromBlockNum env (blockNumber receipt) net = Inr ts"
       "pollPendingTransaction env as nets m p = txStatusCompletion env m p net receipt st ts"
    by blast
  from ne a(6) have "txStatusCompletion env m p net receipt st ts \<noteq> []" by simp
  from txStatusCompletion_cases [OF this] obtain s t later where
    b: "st = Some s" "ts = Some t"
       "txStatusCompletion env m p net receipt st ts =
          AddNewTransactionToAccount (senderOf env p net receipt) (confirmedTx p receipt st ts)
            # later"
    by blast
  have "timestamp (confirmedTx p receipt (Some s) (Some t)) = Some t"
       "stage (confirmedTx p receipt (Some s) (Some t)) = Some s"
    by (simp_all add: confirmedTx_def)
  with a b show "\<exists>net resp receipt st ts later.
          ITxReceipt.network p = Some net
          \<and> getTransactionByHash env net (hash p) = Inr (Some resp)
          \<and> fromTxReceiptObj env resp as nets = Some receipt
          \<and> getTxStatus env net (hash receipt) = Inr (Some st)
          \<and> getTimestampFromBlockNum env (blockNumber receipt) net = Inr (Some ts)
          \<and> pollPendingTransaction env as nets m p =
              AddNewTransactionToAccount (senderOf env p net receipt)
                (confirmedTx p receipt (Some st) (Some ts)) # later
          \<and> timestamp (confirmedTx p receipt (Some st) (Some ts)) = Some ts
          \<and> stage (confirmedTx p receipt (Some st) (Some ts)) = Some st"
    by auto
next
  fix net
  assume "ITxReceipt.network p = Some net \<and> getTransactionByHash env net (hash p) = Inr None"
  then show "pollPendingTransaction env as nets m p = []"
    by (simp add: pollPendingTransaction_def)
next
  fix net resp
  assume "ITxReceipt.network p = Some net
          \<and> getTransactionByHash env net (hash p) = Inr (Some resp)
          \<and> fromTxReceiptObj env resp as nets = None"
  then show "pollPendingTransaction env as nets m p = []"
    by (simp add: pollPendingTransaction_def)
next
  fix net resp receipt
  assume "ITxReceipt.network p = Some net
          \<and> getTransactionByHash env net (hash p) = Inr (Some resp)
          \<and> fromTxReceiptObj env resp as nets = Some receipt
          \<and> (getTxStatus env net (hash receipt) = Inr None
               \<or> getTimestampFromBlockNum env (blockNumber receipt) net = Inr None)"
  then show "pollPendingTransaction env as nets m p = []"
    by (auto simp: pollPendingTransaction_def txStatusCompletion_def truthyString_def
        truthyNumber_def split: sum.splits)
qed

theorem pollPendingTransaction_updates_only_on_success_witness:
  "pollPendingTransaction exampleRpcEnv [] [exampleNetwork] True examplePending =
     [AddNewTransactionToAccount None
        (exampleReceipt\<lparr>txType := Some PURCHASE_MEMBERSHIP, timestamp := Some 1600000000,
                         stage := Some ''SUCCESS''\<rparr>),
      ScanForMemberships [None]]
   \<and> getTransactionByHash exampleRpcEnv exampleNetwork ''0xdef'' = Inr None
   \<and> pollPendingTransaction exampleRpcEnv [] [exampleNetwork] True
        (examplePending\<lparr>hash := ''0xdef''\<rparr>) = []
   \<and> pollPendingTransaction (exampleRpcEnv\<lparr>fromTxReceiptObj := \<lambda>resp as ns. None\<rparr>) []
        [exampleNetwork] True examplePending = []
   \<and> pollPendingTransaction (exampleRpcEnv\<lparr>getTxStatus := \<lambda>n h. Inr None\<rparr>) []
        [exampleNetwork] True examplePending = []
   \<and> pollPendingTransaction (exampleRpcEnv\<lparr>getTimestampFromBlockNum := \<lambda>b n. Inr None\<rparr>) []
        [exampleNetwork] True examplePending = []"
  using pollPendingTransaction_updates_only_on_success
      [of exampleRpcEnv "[]" "[exampleNetwork]" True examplePending]
    pollPendingTransaction_updates_only_on_success
      [of exampleRpcEnv "[]" "[exampleNetwork]" True "examplePending\<lparr>hash := ''0xdef''\<rparr>"]
    pollPendingTransaction_updates_only_on_success
      [of "exampleRpcEnv\<lparr>fromTxReceiptObj := \<lambda>resp as ns. None\<rparr>" "[]" "[exampleNetwork]"
        True examplePending]
    pollPendingTransaction_updates_only_on_success
      [of "exampleRpcEnv\<lparr>getTxStatus := \<lambda>n h. Inr None\<rparr>" "[]" "[exampleNetwork]"
        True examplePending]
    pollPendingTransaction_updates_only_on_success
      [of "exampleRpcEnv\<lparr>getTimestampFromBlockNum := \<lambda>b n. Inr None\<rparr>" "[]"
        "[exampleNetwork]" True examplePending]
  by (simp add: exampleRpcEnv_def examplePending_def exampleReceipt_def
      pollPendingTransaction_def txStatusCompletion_def truthyString_def truthyNumber_def
      senderOf_def confirmedTx_def)

subsection \<open>Poll periods\<close>

text \<open>What a run of the timers calls: the callback of a timer that is due at \<open>d\<close> with
  delay \<open>p\<close> is called at \<open>d\<close>, \<open>d + p\<close>, \<open>d + 2 p\<close>, ...\<close>

lemma clock_tick: "clock (tick L) = clock L + 1"
  by (simp add: tick_def Let_def)

lemma calls_tick:
  "((c, h) \<in> set (calls (tick L))) =
     ((c, h) \<in> set (calls L)
      \<or> (c = clock L + 1 \<and> (\<exists>t \<in> set (timers L). handler t = h \<and> due t = c)))"
  by (auto simp: tick_def Let_def)

lemma dvd_after_delay:
  assumes "0 < d" "0 < (k::nat)"
  shows "(d \<le> k \<and> d dvd (k - d)) = (d dvd k)"
proof (cases "d \<le> k")
  case True
  then show ?thesis by (simp add: dvd_minus_self)
next
  case False
  with assms have "\<not> d dvd k" by (simp add: nat_dvd_not_less)
  with False show ?thesis by simp
qed

lemma timers_tick:
  assumes "\<forall>t \<in> set (timers L). clock L < due t \<and> 0 < delay t"
    and "clock L + 1 < c"
  shows "(\<exists>t \<in> set (timers (tick L)). handler t = h \<and> due t \<le> c \<and> delay t dvd (c - due t)) =
         (\<exists>t \<in> set (timers L). handler t = h \<and> due t \<le> c \<and> delay t dvd (c - due t))"
proof -
  let ?c1 = "clock L + 1"
  let ?f = "\<lambda>t. if due t = ?c1 then t\<lparr>due := ?c1 + delay t\<rparr> else t"
  have step: "(handler (?f t) = h \<and> due (?f t) \<le> c \<and> delay (?f t) dvd (c - due (?f t))) =
              (handler t = h \<and> due t \<le> c \<and> delay t dvd (c - due t))"
    if "t \<in> set (timers L)" for t
  proof (cases "due t = ?c1")
    case True
    from that assms(1) have d: "0 < delay t" by blast
    from assms(2) have k: "0 < c - ?c1" by simp
    have "(?c1 + delay t \<le> c \<and> delay t dvd (c - (?c1 + delay t))) =
          (delay t \<le> c - ?c1 \<and> delay t dvd ((c - ?c1) - delay t))"
      using assms(2) by auto
    also have "\<dots> = (delay t dvd (c - ?c1))"
      using dvd_after_delay [OF d k] .
    finally show ?thesis using True assms(2) by simp
  next
    case False
    then show ?thesis by simp
  qed
  let ?P = "\<lambda>t. handler t = h \<and> due t \<le> c \<and> delay t dvd (c - due t)"
  have "timers (tick L) = map ?f (timers L)"
    by (simp add: tick_def Let_def)
  then have "(\<exists>t \<in> set (timers (tick L)). ?P t) = (\<exists>t \<in> set (timers L). ?P (?f t))"
    by (simp only: set_map bex_simps)
  also have "\<dots> = (\<exists>t \<in> set (timers L). ?P t)"
    by (rule bex_cong [OF refl]) (rule step)
  finally show ?thesis .
qed

lemma tick_keeps_armed:
  assumes "\<forall>t \<in> set (timers L). clock L < due t \<and> 0 < delay t"
  shows "\<forall>t \<in> set (timers (tick L)). clock (tick L) < due t \<and> 0 < delay t"
  using assms by (auto simp: tick_def Let_def)

lemma calls_run:
  assumes "\<forall>t \<in> set (timers L). clock L < due t \<and> 0 < delay t"
  shows "((c, h) \<in> set (calls (run n L))) =
     ((c, h) \<in> set (calls L)
      \<or> (clock L < c \<and> c \<le> clock L + n
          \<and> (\<exists>t \<in> set (timers L). handler t = h \<and> due t \<le> c \<and> delay t dvd (c - due t))))"
  using assms
proof (induction n arbitrary: L)
  case 0
  then show ?case by auto
next
  case (Suc n)
  note inv = Suc.prems
  have ih: "((c, h) \<in> set (calls (run n (tick L)))) =
     ((c, h) \<in> set (calls (tick L))
      \<or> (clock L + 1 < c \<and> c \<le> clock L + 1 + n
          \<and> (\<exists>t \<in> set (timers (tick L)). handler t = h \<and> due t \<le> c \<and> delay t dvd (c - due t))))"
    using Suc.IH [OF tick_keeps_armed [OF inv]] by (simp add: clock_tick)
  have first: "(\<exists>t \<in> set (timers L). handler t = h \<and> due t = clock L + 1) =
               (\<exists>t \<in> set (timers L). handler t = h \<and> due t \<le> clock L + 1
                   \<and> delay t dvd (clock L + 1 - due t))"
    using inv by (auto simp: Suc_le_eq le_Suc_eq)
  show ?case
  proof (cases "c = clock L + 1")
    case True
    with ih first show ?thesis by (auto simp: calls_tick)
  next
    case False
    show ?thesis
    proof (cases "clock L + 1 < c")
      case True
      with ih timers_tick [OF inv True, of h] show ?thesis
        by (auto simp: calls_tick)
    next
      case False
      with \<open>c \<noteq> clock L + 1\<close> ih show ?thesis by (auto simp: calls_tick)
    qed
  qed
qed

lemma due_after_arming:
  assumes "0 < d"
  shows "(clock L < c \<and> clock L + d \<le> c \<and> d dvd (c - (clock L + d))) =
         (clock L < c \<and> d dvd (c - clock L))"
proof (cases "clock L < c")
  case True
  then have k: "0 < c - clock L" by simp
  have "(clock L + d \<le> c \<and> d dvd (c - (clock L + d))) =
        (d \<le> c - clock L \<and> d dvd ((c - clock L) - d))"
    using True by auto
  also have "\<dots> = (d dvd (c - clock L))"
    using dvd_after_delay [OF assms k] .
  finally show ?thesis by simp
next
  case False
  then show ?thesis by simp
qed

lemma clock_run: "clock (run n L) = clock L + n"
  by (induction n arbitrary: L) (simp_all add: clock_tick)

lemma run_keeps_armed:
  assumes "\<forall>t \<in> set (timers L). clock L < due t \<and> 0 < delay t"
  shows "\<forall>t \<in> set (timers (run n L)). clock (run n L) < due t \<and> 0 < delay t"
  using assms
proof (induction n arbitrary: L)
  case 0
  then show ?case by simp
next
  case (Suc n)
  from Suc.IH [OF tick_keeps_armed [OF Suc.prems]] show ?case by simp
qed

lemma ids_tick:
  "map (\<lambda>t. (timerId t, handler t)) (timers (tick L)) =
   map (\<lambda>t. (timerId t, handler t)) (timers L)"
  by (simp add: tick_def Let_def comp_def if_distrib [of timerId] if_distrib [of handler])

lemma ids_run:
  "map (\<lambda>t. (timerId t, handler t)) (timers (run n L)) =
   map (\<lambda>t. (timerId t, handler t)) (timers L)"
  by (induction n arbitrary: L) (simp_all add: ids_tick)

text \<open>The provider after its effects have run, as far as the theorem needs it.\<close>

lemma mountStoreProvider_loop:
  assumes "timers L = []"
  shows "clock (snd (mountStoreProvider ps L)) = clock L"
    and "set (calls (snd (mountStoreProvider ps L))) =
           insert (clock L, BalancePoll) (set (calls L))"
    and "timers (snd (mountStoreProvider ps L)) =
      \<lparr>timerId = nextTimerId L, handler = BalancePoll, delay = 60000, due = clock L + 60000\<rparr> #
      (if ps = [] then []
       else [\<lparr>timerId = nextTimerId L + 1, handler = TxStatusPoll, delay = 5000,
               due = clock L + 5000\<rparr>])"
    and "fst (mountStoreProvider ps L) = (if ps = [] then None else Some (nextTimerId L + 1))"
  using assms
  by (simp_all add: mountStoreProvider_def txStatusEffect_def useInterval_def setInterval_def
      split_beta)

text \<open>
  C7. The balance-refresh poll runs with a period of 60 seconds, 60000 ms, and the
  pending-transaction-status poll with a period of 5 seconds, 5000 ms. After the provider
  has mounted at time \<open>clock L\<close>, the balance callback is called at mount and then
  exactly at the times \<open>clock L + 60000 k\<close>, and the status callback, when a transaction
  is pending, exactly at the times \<open>clock L + 5000 k\<close>, for \<open>k \<ge> 1\<close>; with no pending
  transaction it is never called. When the pending transactions change \<open>m\<close> ms after the
  mount, the status callback is from then on called exactly at the times
  \<open>clock L + m + 5000 k\<close>.
\<close>

theorem poll_periods:
  assumes "timers L = []"
  shows "((c, BalancePoll) \<in> set (calls (run n (snd (mountStoreProvider ps L))))) =
           ((c, BalancePoll) \<in> set (calls L) \<or> c = clock L
            \<or> (clock L < c \<and> c \<le> clock L + n \<and> 60000 dvd (c - clock L)))
       \<and> ((c, TxStatusPoll) \<in> set (calls (run n (snd (mountStoreProvider ps L))))) =
           ((c, TxStatusPoll) \<in> set (calls L)
            \<or> (ps \<noteq> [] \<and> clock L < c \<and> c \<le> clock L + n \<and> 5000 dvd (c - clock L)))
       \<and> ((c, TxStatusPoll) \<in> set (calls (run n (snd
              (txStatusRerender (fst (mountStoreProvider ps L)) ps'
                 (run m (snd (mountStoreProvider ps L)))))))) =
           ((c, TxStatusPoll) \<in> set (calls (run m (snd (mountStoreProvider ps L))))
            \<or> (ps' \<noteq> [] \<and> clock L + m < c \<and> c \<le> clock L + m + n
                \<and> 5000 dvd (c - (clock L + m))))"
proof (intro conjI)
  let ?M = "snd (mountStoreProvider ps L)"
  note M = mountStoreProvider_loop [OF assms, of ps]
  have inv: "\<forall>t \<in> set (timers ?M). clock ?M < due t \<and> 0 < delay t"
    by (simp add: M)
  have b: "(clock L < c \<and> clock L + 60000 \<le> c \<and> 60000 dvd (c - (clock L + 60000))) =
           (clock L < c \<and> 60000 dvd (c - clock L))"
    by (rule due_after_arming) simp
  have t: "(clock L < c \<and> clock L + 5000 \<le> c \<and> 5000 dvd (c - (clock L + 5000))) =
           (clock L < c \<and> 5000 dvd (c - clock L))"
    by (rule due_after_arming) simp
  show "((c, BalancePoll) \<in> set (calls (run n ?M))) =
           ((c, BalancePoll) \<in> set (calls L) \<or> c = clock L
            \<or> (clock L < c \<and> c \<le> clock L + n \<and> 60000 dvd (c - clock L)))"
    using calls_run [OF inv, of c BalancePoll n] b by (auto simp: M)
  show "((c, TxStatusPoll) \<in> set (calls (run n ?M))) =
           ((c, TxStatusPoll) \<in> set (calls L)
            \<or> (ps \<noteq> [] \<and> clock L < c \<and> c \<le> clock L + n \<and> 5000 dvd (c - clock L)))"
    using calls_run [OF inv, of c TxStatusPoll n] t by (auto simp: M)
  let ?X = "run m ?M"
  let ?Z = "txStatusCleanup (fst (mountStoreProvider ps L)) ?X"
  let ?Y = "snd (txStatusRerender (fst (mountStoreProvider ps L)) ps' ?X)"
  have invX: "\<forall>t \<in> set (timers ?X). clock ?X < due t \<and> 0 < delay t"
    by (rule run_keeps_armed [OF inv])
  have clkX: "clock ?X = clock L + m"
    by (simp add: clock_run M)
  have "map (\<lambda>t. (timerId t, handler t)) (timers ?X) =
        (nextTimerId L, BalancePoll) #
        (if ps = [] then [] else [(nextTimerId L + 1, TxStatusPoll)])"
    by (simp add: ids_run M)
  then have "(\<lambda>t. (timerId t, handler t)) ` set (timers ?X) =
        set ((nextTimerId L, BalancePoll) #
             (if ps = [] then [] else [(nextTimerId L + 1, TxStatusPoll)]))"
    by (metis set_map)
  then have idsX: "(timerId u, handler u) = (nextTimerId L, BalancePoll)
                   \<or> (ps \<noteq> [] \<and> (timerId u, handler u) = (nextTimerId L + 1, TxStatusPoll))"
    if "u \<in> set (timers ?X)" for u
    using that by (auto split: if_splits)
  have Z: "clock ?Z = clock ?X" "calls ?Z = calls ?X" "set (timers ?Z) \<subseteq> set (timers ?X)"
    by (auto simp: txStatusCleanup_def clearInterval_def split: option.splits)
  have balZ: "handler u = BalancePoll" if "u \<in> set (timers ?Z)" for u
  proof (cases "ps = []")
    case True
    from that Z(3) have "u \<in> set (timers ?X)" by blast
    from idsX [OF this] True show ?thesis by simp
  next
    case False
    then have "fst (mountStoreProvider ps L) = Some (nextTimerId L + 1)"
      by (simp add: M)
    with that have "u \<in> set (timers ?X)" "timerId u \<noteq> nextTimerId L + 1"
      by (simp_all add: txStatusCleanup_def clearInterval_def)
    with idsX [of u] show ?thesis by auto
  qed
  have Y: "clock ?Y = clock L + m" "calls ?Y = calls ?X"
          "timers ?Y = timers ?Z @
             (if ps' = [] then []
              else [\<lparr>timerId = nextTimerId ?Z, handler = TxStatusPoll, delay = 5000,
                      due = clock L + m + 5000\<rparr>])"
    using Z(1,2) clkX
    by (simp_all add: txStatusRerender_def txStatusEffect_def setInterval_def split_beta)
  have invY: "\<forall>t \<in> set (timers ?Y). clock ?Y < due t \<and> 0 < delay t"
    using invX Z(3) clkX by (auto simp: Y)
  have fire: "(\<exists>u \<in> set (timers ?Y). handler u = TxStatusPoll \<and> due u \<le> c
                 \<and> delay u dvd (c - due u)) =
              (ps' \<noteq> [] \<and> clock L + m + 5000 \<le> c \<and> 5000 dvd (c - (clock L + m + 5000)))"
    using balZ by (auto simp: Y)
  have r: "(clock L + m < c \<and> clock L + m + 5000 \<le> c \<and> 5000 dvd (c - (clock L + m + 5000))) =
           (clock L + m < c \<and> 5000 dvd (c - (clock L + m)))"
    using due_after_arming [of 5000 ?X c] by (simp add: clkX)
  show "((c, TxStatusPoll) \<in> set (calls (run n ?Y))) =
           ((c, TxStatusPoll) \<in> set (calls ?X)
            \<or> (ps' \<noteq> [] \<and> clock L + m < c \<and> c \<le> clock L + m + n
                \<and> 5000 dvd (c - (clock L + m))))"
    using calls_run [OF invY, of c TxStatusPoll n, unfolded fire] r
    by (auto simp: Y(1,2))
qed

theorem poll_periods_witness:
  "timers freshLoop = []
   \<and> (60000, BalancePoll) \<in> set (calls (run 60000 (snd (mountStoreProvider [examplePending] freshLoop))))
   \<and> (59999, BalancePoll) \<notin> set (calls (run 60000 (snd (mountStoreProvider [examplePending] freshLoop))))
   \<and> (10000, TxStatusPoll) \<in> set (calls (run 60000 (snd (mountStoreProvider [examplePending] freshLoop))))
   \<and> (10001, TxStatusPoll) \<notin> set (calls (run 60000 (snd (mountStoreProvider [examplePending] freshLoop))))
   \<and> (5000, TxStatusPoll) \<notin> set (calls (run 60000 (snd (mountStoreProvider [] freshLoop))))
   \<and> (12000, TxStatusPoll) \<in> set (calls (run 5000 (snd
         (txStatusRerender (fst (mountStoreProvider [examplePending] freshLoop)) [examplePending]
            (run 7000 (snd (mountStoreProvider [examplePending] freshLoop)))))))
   \<and> (10000, TxStatusPoll) \<notin> set (calls (run 5000 (snd
         (txStatusRerender (fst (mountStoreProvider [examplePending] freshLoop)) [examplePending]
            (run 7000 (snd (mountStoreProvider [examplePending] freshLoop)))))))"
  using poll_periods [of freshLoop 60000 60000 "[examplePending]"]
    poll_periods [of freshLoop 59999 60000 "[examplePending]"]
    poll_periods [of freshLoop 10000 60000 "[examplePending]"]
    poll_periods [of freshLoop 10001 60000 "[examplePending]"]
    poll_periods [of freshLoop 5000 60000 "[]"]
    poll_periods [of freshLoop 12000 5000 "[examplePending]" "[examplePending]" 7000]
    poll_periods [of freshLoop 10000 5000 "[examplePending]" "[examplePending]" 7000]
    poll_periods [of freshLoop 10000 7000 "[examplePending]"]
  by (simp add: freshLoop_def)

text \<open>The timers at work on small delays: two intervals, and an interval cleared after
  its first call.\<close>

lemma run_example:
  "calls (run 7 (snd (setInterval TxStatusPoll 3 (snd (setInterval BalancePoll 2 freshLoop))))) =
     [(2, BalancePoll), (3, TxStatusPoll), (4, BalancePoll), (6, BalancePoll), (6, TxStatusPoll)]"
  by code_simp

lemma clearInterval_example:
  "calls (run 4 (clearInterval 0 (run 3 (snd (setInterval TxStatusPoll 2 freshLoop))))) =
     [(2, TxStatusPoll)]"
  by code_simp

subsection \<open>The mounted flag\<close>

text \<open>
  C8. For every asynchronous completion, of the balance fetch or of the
  transaction-status lookups, that runs when the mounted flag is false, no state update
  is performed: neither updateAccountsBalances nor addNewTransactionToAccount is called,
  for one pending transaction and for a whole tick.
\<close>

theorem unmounted_completions_update_nothing:
  "balancePollCompletion eq False cur fetched = []
   \<and> txStatusCompletion env False p net receipt st ts = []
   \<and> pollPendingTransaction env as nets False p = []
   \<and> txStatusLookupTick env as nets False ps = []"
proof -
  have c: "txStatusCompletion env False q n r s t = []" for q n r s t
    by (simp add: txStatusCompletion_def)
  have p: "pollPendingTransaction env as nets False q = []" for q
    by (simp add: pollPendingTransaction_def c split: option.splits sum.splits)
  show ?thesis
    by (simp add: balancePollCompletion_def c p txStatusLookupTick_def split: sum.splits)
qed

theorem unmounted_completions_update_nothing_witness:
  "balancePollCompletion (\<lambda>a b. False) False exampleAccounts (Inr [None]) = []
   \<and> balancePollCompletion (\<lambda>a b. False) True exampleAccounts (Inr [None]) =
       [UpdateAccountsBalances [None]]
   \<and> txStatusLookupTick exampleRpcEnv [] [exampleNetwork] False [examplePending] = []
   \<and> length (txStatusLookupTick exampleRpcEnv [] [exampleNetwork] True [examplePending]) = 2"
  using unmounted_completions_update_nothing
    [of "\<lambda>a b. False" exampleAccounts "Inr [None]" exampleRpcEnv examplePending
      exampleNetwork exampleReceipt "Some ''SUCCESS''" "Some 1600000000" "[]"
      "[exampleNetwork]" "[examplePending]"]
  by (simp add: balancePollCompletion_def txStatusLookupTick_def exampleRpcEnv_def
      examplePending_def exampleReceipt_def pollPendingTransaction_def txStatusCompletion_def
      truthyString_def truthyNumber_def senderOf_def confirmedTx_def)

subsection \<open>Deleting, restoring and adding accounts\<close>

lemma restoreDeletedAccount_cached:
  "accountRestore st i = Some acc \<Longrightarrow>
   restoreDeletedAccount st i =
     Inr (st\<lparr>accountRestore := (accountRestore st)(IAccount.uuid acc := None)\<rparr>,
          [CreateAccountWithID (IRawAccount.truncate acc) (IAccount.uuid acc)])"
  by (simp add: restoreDeletedAccount_def Let_def)

lemma deleteAccountFromCache_caches:
  "accountRestore (fst (deleteAccountFromCache dash st acc)) (IAccount.uuid acc) = Some acc"
  by (simp add: deleteAccountFromCache_def)

text \<open>
  C9. For every account deleted with deleteAccountFromCache, restoreDeletedAccount with
  the account's id creates the account again with the same uuid and the same data (the
  uuid and the rest passed to createAccountWithID make up the deleted account) and
  clears its restore slot; and for every id with no cached account
  restoreDeletedAccount throws and changes no state.
\<close>

theorem restoreDeletedAccount_roundtrip:
  "(\<exists>st'. restoreDeletedAccount (fst (deleteAccountFromCache dash st acc)) (IAccount.uuid acc) =
            Inr (st', [CreateAccountWithID (IRawAccount.truncate acc) (IAccount.uuid acc)])
          \<and> accountRestore st' = (accountRestore st)(IAccount.uuid acc := None)
          \<and> StoreState.memberships st' =
              StoreState.memberships (fst (deleteAccountFromCache dash st acc)))
   \<and> IRawAccount.extend (IRawAccount.truncate acc) (IAccount.fields (IAccount.uuid acc)) = acc
   \<and> (accountRestore st i = None \<longrightarrow>
        restoreDeletedAccount st i =
          Inl ''Unable to restore account! No account with id specified.'')"
  by (simp add: restoreDeletedAccount_def deleteAccountFromCache_def Let_def
      IRawAccount.defs IAccount.defs)

theorem restoreDeletedAccount_roundtrip_witness:
  "restoreDeletedAccount
     (fst (deleteAccountFromCache [''u1'', ''u2''] exampleStoreState exampleIAccount)) ''u1'' =
     Inr (exampleStoreState\<lparr>StoreState.memberships := Some []\<rparr>,
          [CreateAccountWithID (IRawAccount.truncate exampleIAccount) ''u1''])
   \<and> accountRestore exampleStoreState ''u1'' = None
   \<and> restoreDeletedAccount exampleStoreState ''u1'' =
       Inl ''Unable to restore account! No account with id specified.''"
  using restoreDeletedAccount_roundtrip
    [of "[''u1'', ''u2'']" exampleStoreState exampleIAccount "''u1''"]
  by (simp add: exampleStoreState_def exampleIAccount_def restoreDeletedAccount_def
      deleteAccountFromCache_def Let_def)

text \<open>
  C10. For every call of addAccount: if the networkId does not resolve to a known
  network, or the address is empty, or an account with that address and network exists,
  the call returns undefined and creates nothing; otherwise it returns a new raw account
  whose assets list holds exactly one entry, the network's default asset with balance
  '0', and whose transactions list is empty, and it creates that account.
\<close>

theorem addAccount_result:
  "(getNetworkById env nid nets = None \<or> a = []
      \<or> AccountEnv.getAccountByAddressAndNetworkName env a nid \<noteq> None
    \<longrightarrow> addAccount env nets as cs now nid a t d = (None, []))
   \<and> (\<forall>net. getNetworkById env nid nets = Some net \<and> a \<noteq> []
          \<and> AccountEnv.getAccountByAddressAndNetworkName env a nid = None
        \<longrightarrow> (\<exists>acct contactCall.
               addAccount env nets as cs now nid a t d =
                 (Some acct, [contactCall, CreateAccountWithID acct (generateAccountUUID env nid a)])
               \<and> IRawAccount.assets acct =
                   [\<lparr>AssetBalanceObject.uuid =
                       Asset.uuid (getNewDefaultAssetTemplateByNetwork env as net),
                     AssetBalanceObject.balance = ''0'',
                     AssetBalanceObject.mtime = now\<rparr>]
               \<and> transactions acct = []
               \<and> IRawAccount.address acct = a
               \<and> IRawAccount.networkId acct = nid
               \<and> dPath acct = d))"
  by (auto simp: addAccount_def Let_def split: option.splits)

theorem addAccount_result_witness:
  "addAccount exampleAccountEnv [exampleNetwork] [] [] 5 ''Celo'' ''0x2'' (Some WEB3) ''m/44'' =
     (Some \<lparr>IRawAccount.address = ''0x2'', IRawAccount.networkId = ''Celo'',
            IRawAccount.wallet = Some (OtherWallet ''METAMASK''), dPath = ''m/44'',
            IRawAccount.assets =
              [\<lparr>AssetBalanceObject.uuid = ''asset-Celo'', AssetBalanceObject.balance = ''0'',
                AssetBalanceObject.mtime = 5\<rparr>],
            transactions = [], favorite = False, IRawAccount.mtime = 0\<rparr>,
      [CreateContact \<lparr>AddressBook.label = ''Account 1'', AddressBook.address = ''0x2'',
                      notes' = [], AddressBook.network = ''Celo''\<rparr>,
       CreateAccountWithID
         \<lparr>IRawAccount.address = ''0x2'', IRawAccount.networkId = ''Celo'',
          IRawAccount.wallet = Some (OtherWallet ''METAMASK''), dPath = ''m/44'',
          IRawAccount.assets =
            [\<lparr>AssetBalanceObject.uuid = ''asset-Celo'', AssetBalanceObject.balance = ''0'',
              AssetBalanceObject.mtime = 5\<rparr>],
          transactions = [], favorite = False, IRawAccount.mtime = 0\<rparr>
         ''Celo-0x2''])
   \<and> addAccount exampleAccountEnv [exampleNetwork] [] [] 5 ''Celo'' ''0x1'' (Some WEB3) ''m/44'' =
       (None, [])
   \<and> addAccount exampleAccountEnv [exampleNetwork] [] [] 5 ''Celo'' [] (Some WEB3) ''m/44'' =
       (None, [])
   \<and> addAccount exampleAccountEnv [exampleNetwork] [] [] 5 ''Moon'' ''0x2'' (Some WEB3) ''m/44'' =
       (None, [])"
  using addAccount_result
      [of exampleAccountEnv "''Celo''" "[exampleNetwork]" "''0x2''" "[]" "[]" 5 "Some WEB3" "''m/44''"]
    addAccount_result
      [of exampleAccountEnv "''Celo''" "[exampleNetwork]" "''0x1''" "[]" "[]" 5 "Some WEB3" "''m/44''"]
  by (simp add: exampleAccountEnv_def exampleNetwork_def exampleIAccount_def addAccount_def
      Let_def)

end
